theory Spec2Isabelle
  imports Main "HOL-Library.Word"
begin

unbundle bit_operations_syntax

section \<open>Strings\<close>

text \<open>
  A JavaScript string is modelled as a \<^typ>\<open>string\<close> whose characters are the code units
  0..255 (Latin-1).  Within that range \<open>trim\<close> strips TAB, LF, VT, FF, CR, SPACE and
  NBSP, which is also the class \<open>\s\<close> of a regular expression, and \<open>toLowerCase\<close>
  maps A-Z and the accented capitals 192..222 (without the multiplication sign 215) 32
  places up.
\<close>

definition isWhiteSpace :: "char \<Rightarrow> bool" where
  "isWhiteSpace c = (of_char c \<in> {9, 10, 11, 12, 13, 32, 160 :: nat})"

definition trim :: "string \<Rightarrow> string" where
  "trim s = rev (dropWhile isWhiteSpace (rev (dropWhile isWhiteSpace s)))"

definition isUpper :: "char \<Rightarrow> bool" where
  "isUpper c = (let n = of_char c :: nat
                in (65 \<le> n \<and> n \<le> 90) \<or> (192 \<le> n \<and> n \<le> 222 \<and> n \<noteq> 215))"

definition lowerChar :: "char \<Rightarrow> char" where
  "lowerChar c = (if isUpper c then char_of (of_char c + 32 :: nat) else c)"

definition toLowerCase :: "string \<Rightarrow> string" where
  "toLowerCase s = map lowerChar s"

text \<open>
  \<open>toUpperCase\<close> can leave Latin-1 (sharp s becomes "SS", y with diaeresis and the micro
  sign move above 255), so its result is a list of code units.  The source only takes the
  length of the result.
\<close>

definition upperUnits :: "char \<Rightarrow> nat list" where
  "upperUnits c = (let n = of_char c :: nat
                   in if n = 223 then [83, 83]
                      else if n = 255 then [376]
                      else if n = 181 then [924]
                      else if (97 \<le> n \<and> n \<le> 122) \<or> (224 \<le> n \<and> n \<le> 254 \<and> n \<noteq> 247)
                           then [n - 32]
                      else [n])"

definition toUpperCase :: "string \<Rightarrow> nat list" where
  "toUpperCase s = concat (map upperUnits s)"

section \<open>Rate limiting (\<open>rateLimit\<close>, server/index.js 120-149)\<close>

record rate_entry =
  count :: nat
  resetTime :: int

definition windowMs :: int where
  "windowMs = 60000"

definition maxRequests :: nat where
  "maxRequests = 20"

text \<open>
  The middleware either calls \<open>next()\<close> (first component \<open>True\<close>) or answers 429
  (\<open>False\<close>); the second component is \<open>rateLimitMap\<close> afterwards.
\<close>

definition rateLimit :: "string \<Rightarrow> int \<Rightarrow> (string \<rightharpoonup> rate_entry) \<Rightarrow> bool \<times> (string \<rightharpoonup> rate_entry)" where
  "rateLimit clientIP now rl =
     (case rl clientIP of
        None \<Rightarrow> (True, rl(clientIP \<mapsto> \<lparr>count = 1, resetTime = now + windowMs\<rparr>))
      | Some clientData \<Rightarrow>
          if now > resetTime clientData
          then (True, rl(clientIP \<mapsto> \<lparr>count = 1, resetTime = now + windowMs\<rparr>))
          else if count clientData \<ge> maxRequests then (False, rl)
          else (True, rl(clientIP \<mapsto> clientData\<lparr>count := count clientData + 1\<rparr>)))"

text \<open>A burst of requests of one client, each with its arrival time.\<close>

fun rateLimit_all :: "string \<Rightarrow> int list \<Rightarrow> (string \<rightharpoonup> rate_entry) \<Rightarrow> bool list \<times> (string \<rightharpoonup> rate_entry)" where
  "rateLimit_all clientIP [] rl = ([], rl)"
| "rateLimit_all clientIP (t # ts) rl =
     (case rateLimit clientIP t rl of
        (ok, rl') \<Rightarrow> (case rateLimit_all clientIP ts rl' of (oks, rl'') \<Rightarrow> (ok # oks, rl'')))"

section \<open>SHA-256 (\<open>crypto.createHash('sha256')\<close> of the runtime)\<close>

text \<open>
  The digest is computed by the runtime library, not by the repository; it is written out
  here (FIPS 180-4) so that a voter key is a concrete value.  A message is a list of bytes;
  the round constants and the initial hash value are given in decimal.
\<close>

type_synonym w32 = "32 word"

definition rotr :: "nat \<Rightarrow> w32 \<Rightarrow> w32" where
  "rotr n x = (drop_bit n x) OR (push_bit (32 - n) x)"

definition Ch :: "w32 \<Rightarrow> w32 \<Rightarrow> w32 \<Rightarrow> w32" where
  "Ch x y z = (x AND y) XOR (NOT x AND z)"

definition Maj :: "w32 \<Rightarrow> w32 \<Rightarrow> w32 \<Rightarrow> w32" where
  "Maj x y z = (x AND y) XOR (x AND z) XOR (y AND z)"

definition bsig0 :: "w32 \<Rightarrow> w32" where
  "bsig0 x = rotr 2 x XOR rotr 13 x XOR rotr 22 x"

definition bsig1 :: "w32 \<Rightarrow> w32" where
  "bsig1 x = rotr 6 x XOR rotr 11 x XOR rotr 25 x"

definition ssig0 :: "w32 \<Rightarrow> w32" where
  "ssig0 x = rotr 7 x XOR rotr 18 x XOR drop_bit 3 x"

definition ssig1 :: "w32 \<Rightarrow> w32" where
  "ssig1 x = rotr 17 x XOR rotr 19 x XOR drop_bit 10 x"

definition K256 :: "w32 list" where
  "K256 = [
      1116352408, 1899447441, 3049323471, 3921009573, 961987163, 1508970993,
      2453635748, 2870763221, 3624381080, 310598401, 607225278, 1426881987,
      1925078388, 2162078206, 2614888103, 3248222580, 3835390401, 4022224774,
      264347078, 604807628, 770255983, 1249150122, 1555081692, 1996064986,
      2554220882, 2821834349, 2952996808, 3210313671, 3336571891, 3584528711,
      113926993, 338241895, 666307205, 773529912, 1294757372, 1396182291,
      1695183700, 1986661051, 2177026350, 2456956037, 2730485921, 2820302411,
      3259730800, 3345764771, 3516065817, 3600352804, 4094571909, 275423344,
      430227734, 506948616, 659060556, 883997877, 958139571, 1322822218,
      1537002063, 1747873779, 1955562222, 2024104815, 2227730452, 2361852424,
      2428436474, 2756734187, 3204031479, 3329325298]"

definition H256 :: "w32 list" where
  "H256 = [
      1779033703, 3144134277, 1013904242, 2773480762, 1359893119, 2600822924,
      528734635, 1541459225]"

definition be64 :: "64 word \<Rightarrow> nat list" where
  "be64 n = map (\<lambda>i. unat (take_bit 8 (drop_bit (8 * i) n))) [7, 6, 5, 4, 3, 2, 1, 0]"

definition pad :: "nat list \<Rightarrow> nat list" where
  "pad m = m @ [128] @ replicate ((64 - (length m + 9) mod 64) mod 64) 0 @ be64 (8 * word_of_nat (length m))"

fun words :: "nat list \<Rightarrow> w32 list" where
  "words (a # b # c # d # r) = (((word_of_nat a * 256 + word_of_nat b) * 256 + word_of_nat c) * 256 + word_of_nat d) # words r"
| "words _ = []"

fun sched :: "nat \<Rightarrow> w32 list \<Rightarrow> w32 list" where
  "sched 0 ws = ws"
| "sched (Suc n) ws =
     (let t = length ws
      in sched n (ws @ [ssig1 (ws ! (t - 2)) + ws ! (t - 7) + ssig0 (ws ! (t - 15)) + ws ! (t - 16)]))"

fun round256 :: "w32 list \<Rightarrow> (w32 \<times> w32) \<Rightarrow> w32 list" where
  "round256 [a, b, c, d, e, f, g, h] (k, w) =
     (let t1 = h + bsig1 e + Ch e f g + k + w; t2 = bsig0 a + Maj a b c
      in [t1 + t2, a, b, c, d + t1, e, f, g])"
| "round256 s _ = s"

definition compress :: "w32 list \<Rightarrow> w32 list \<Rightarrow> w32 list" where
  "compress hs blk = map2 (+) hs (foldl round256 hs (zip K256 (sched 48 blk)))"

fun blocks :: "w32 list \<Rightarrow> w32 list \<Rightarrow> w32 list" where
  "blocks hs ws = (if length ws < 16 then hs else blocks (compress hs (take 16 ws)) (drop 16 ws))"

definition hexdigit :: "nat \<Rightarrow> char" where
  "hexdigit n = ''0123456789abcdef'' ! n"

definition hex32 :: "w32 \<Rightarrow> string" where
  "hex32 w = map (\<lambda>i. hexdigit (unat (take_bit 4 (drop_bit (4 * i) w)))) [7, 6, 5, 4, 3, 2, 1, 0]"

definition sha256_hex :: "nat list \<Rightarrow> string" where
  "sha256_hex m = concat (map hex32 (blocks H256 (words (pad m))))"

text \<open>\<open>update(rawKey)\<close> hashes the UTF-8 encoding of the string.\<close>

definition utf8 :: "string \<Rightarrow> nat list" where
  "utf8 s = concat (map (\<lambda>c. let n = of_char c :: nat
                               in if n < 128 then [n] else [192 + n div 64, 128 + n mod 64]) s)"

section \<open>Voter identity (\<open>generateVoterKey\<close>, server/index.js 110-113)\<close>

definition rawKey :: "string \<Rightarrow> string \<Rightarrow> string \<Rightarrow> string \<Rightarrow> string" where
  "rawKey nm studentClass' division' dateOfBirth' =
     trim (toLowerCase nm) @ ''_'' @ trim studentClass' @ ''_'' @ trim division' @ ''_'' @ dateOfBirth'"

definition generateVoterKey :: "string \<Rightarrow> string \<Rightarrow> string \<Rightarrow> string \<Rightarrow> string" where
  "generateVoterKey nm studentClass' division' dateOfBirth' =
     sha256_hex (utf8 (rawKey nm studentClass' division' dateOfBirth'))"

text \<open>
  The variant of the server without a date of birth (unnamed/part_003 122-125) hashes three
  fields.
\<close>

definition generateVoterKey3 :: "string \<Rightarrow> string \<Rightarrow> string \<Rightarrow> string" where
  "generateVoterKey3 nm studentClass' division' =
     sha256_hex (utf8 (trim (toLowerCase nm) @ ''_'' @ trim studentClass' @ ''_'' @ trim division'))"

section \<open>Input validation (\<open>validateVoterInfo\<close>, server/index.js 152-202)\<close>

text \<open>
  The body of a verification request.  \<open>extra\<close> holds the properties of the JSON body
  other than the four the server reads; the body is stored as a whole in the session and
  spread into the roll entry.
\<close>

record voter_info =
  name :: string
  studentClass :: string
  division :: string
  dateOfBirth :: string
  extra :: "(string \<times> string) list"

definition nameChar :: "char \<Rightarrow> bool" where
  "nameChar c = (let n = of_char c :: nat
                 in (97 \<le> n \<and> n \<le> 122) \<or> (65 \<le> n \<and> n \<le> 90) \<or> isWhiteSpace c
                    \<or> n = 45 \<or> n = 39 \<or> n = 46)"

definition msPerYear :: int where
  "msPerYear = 31557600000"

text \<open>
  \<open>parseDate\<close> stands for \<open>new Date(s).getTime()\<close> of the runtime, \<open>None\<close> for an
  invalid date.  The result is \<open>None\<close> for \<open>{valid: true}\<close> and the message otherwise.
  The age in years is a quotient of two integers of milliseconds by \<open>msPerYear\<close>; its
  comparisons with 3 and 30 are those of the integers.
\<close>

definition validateVoterInfo :: "(string \<Rightarrow> int option) \<Rightarrow> int \<Rightarrow> voter_info \<Rightarrow> string option" where
  "validateVoterInfo parseDate now vi =
     (if name vi = [] \<or> studentClass vi = [] \<or> division vi = [] \<or> dateOfBirth vi = []
      then Some ''All fields are required''
      else let cleanName = trim (name vi) in
      if cleanName = [] \<or> length cleanName < 2 \<or> length cleanName > 100
      then Some ''Name must be between 2-100 characters''
      else if \<not> list_all nameChar cleanName
      then Some ''Name can only contain letters, spaces, hyphens, apostrophes, and dots''
      else let cleanClass = toUpperCase (trim (studentClass vi)) in
      if cleanClass = [] \<or> length cleanClass > 10
      then Some ''Class field is required and must be under 10 characters''
      else let cleanDivision = toUpperCase (trim (division vi)) in
      if cleanDivision = [] \<or> length cleanDivision > 5
      then Some ''Division field is required and must be under 5 characters''
      else case parseDate (dateOfBirth vi) of
        None \<Rightarrow> Some ''Please enter a valid date of birth''
      | Some dob \<Rightarrow>
          if now - dob < 3 * msPerYear \<or> now - dob > 30 * msPerYear
          then Some ''Age must be between 3-30 years for school students''
          else if dob > now then Some ''Date of birth cannot be in the future''
          else None)"

section \<open>Server state\<close>

record session =
  voterKey :: string
  voterInfo :: voter_info
  timestamp :: int
  verified :: bool

text \<open>An entry of students.json (the voter roll).\<close>

record student =
  s_voterKey :: string
  s_voterInfo :: voter_info
  votedAt :: int
  s_headBoyVote :: "string option"
  s_headGirlVote :: "string option"
  s_sportsCaptainVote :: "string option"
  s_sportsViceCaptainVote :: "string option"
  s_sessionToken :: string

text \<open>votes.json: per position, the count of each candidate name.\<close>

record votes =
  headBoy :: "string \<rightharpoonup> nat"
  headGirl :: "string \<rightharpoonup> nat"
  sportsCaptain :: "string \<rightharpoonup> nat"
  sportsViceCaptain :: "string \<rightharpoonup> nat"

record settings =
  votingEnabled :: bool

text \<open>
  The three data files and the three in-memory maps.  A file is \<open>None\<close> when
  \<open>readJsonFile\<close> returns \<open>null\<close> (missing or unparsable).  \<open>votingSessions\<close> maps a
  voter key to the timestamp of its entry.
\<close>

record server =
  studentsFile :: "student list option"
  votesFile :: "votes option"
  settingsFile :: "settings option"
  votingSessions :: "string \<rightharpoonup> int"
  verifiedSessions :: "string \<rightharpoonup> session"
  rateLimitMap :: "string \<rightharpoonup> rate_entry"

record response =
  status :: nat
  success :: bool
  message :: string

record cv_response = response +
  r_hasVoted :: "bool option"
  r_sessionToken :: "string option"

text \<open>\<open>students.some(student => student.voterKey === voterKey)\<close>\<close>

definition hasVoted :: "student list \<Rightarrow> string \<Rightarrow> bool" where
  "hasVoted students k = (k \<in> s_voterKey ` set students)"

section \<open>Verification (\<open>POST /api/check-voter\<close>, server/index.js 468-536)\<close>

text \<open>
  The callback of the route, run when the rate limiter has admitted the request.
  \<open>freshToken\<close> is the value of \<open>generateSessionToken()\<close> (32 random bytes in hex), \<open>now\<close>
  the clock.  The handler reads students.json once and then runs to its end.
\<close>

definition check_voter ::
  "(string \<Rightarrow> int option) \<Rightarrow> int \<Rightarrow> string \<Rightarrow> voter_info \<Rightarrow> server \<Rightarrow> cv_response \<times> server" where
  "check_voter parseDate now freshToken body srv =
     (case validateVoterInfo parseDate now body of
        Some msg \<Rightarrow>
          (\<lparr>status = 400, success = False, message = msg,
            r_hasVoted = None, r_sessionToken = None\<rparr>, srv)
      | None \<Rightarrow>
          let k = generateVoterKey (name body) (studentClass body) (division body) (dateOfBirth body)
          in (case studentsFile srv of
               None \<Rightarrow>
                 (\<lparr>status = 500, success = False, message = ''Verification failed. Please try again.'',
                   r_hasVoted = None, r_sessionToken = None\<rparr>, srv)
             | Some students \<Rightarrow>
                 if hasVoted students k
                 then (\<lparr>status = 200, success = False, message = ''This student has already voted'',
                        r_hasVoted = Some True, r_sessionToken = None\<rparr>, srv)
                 else if votingSessions srv k \<noteq> None
                 then (\<lparr>status = 200, success = False,
                        message = ''Voting session already in progress for this student'',
                        r_hasVoted = Some True, r_sessionToken = None\<rparr>, srv)
                 else (\<lparr>status = 200, success = True, message = ''Verification successful'',
                        r_hasVoted = Some False, r_sessionToken = Some freshToken\<rparr>,
                       srv\<lparr>verifiedSessions := (verifiedSessions srv)(freshToken \<mapsto>
                             \<lparr>voterKey = k, voterInfo = body, timestamp = now, verified = True\<rparr>)\<rparr>)))"

text \<open>The callback of the \<open>setTimeout\<close> armed for a new session (lines 520-524).\<close>

definition expireSession :: "string \<Rightarrow> server \<Rightarrow> server" where
  "expireSession token srv = srv\<lparr>verifiedSessions := (verifiedSessions srv)(token := None)\<rparr>"

section \<open>Periodic cleanup (\<open>setInterval\<close>, server/index.js 728-753)\<close>

definition sessionTimeout :: int where
  "sessionTimeout = 10 * 60 * 1000"

definition sweepInterval :: int where
  "sweepInterval = 5 * 60 * 1000"

definition cleanup :: "int \<Rightarrow> server \<Rightarrow> server" where
  "cleanup now srv = srv
     \<lparr>verifiedSessions := (\<lambda>token. case verifiedSessions srv token of
          None \<Rightarrow> None
        | Some s \<Rightarrow> if now - timestamp s > sessionTimeout then None else Some s),
      votingSessions := (\<lambda>k. case votingSessions srv k of
          None \<Rightarrow> None
        | Some t \<Rightarrow> if now - t > sessionTimeout then None else Some t),
      rateLimitMap := (\<lambda>ip. case rateLimitMap srv ip of
          None \<Rightarrow> None
        | Some d \<Rightarrow> if now > resetTime d then None else Some d)\<rparr>"

section \<open>Vote submission (\<open>POST /api/vote\<close>, server/index.js 539-645)\<close>

text \<open>A vote field is a string; the empty string is the falsy (missing) selection.\<close>

record vote_request =
  sessionToken :: string
  headBoyVote :: string
  headGirlVote :: string
  sportsCaptainVote :: string
  sportsViceCaptainVote :: string

definition voteRecorded :: response where
  "voteRecorded = \<lparr>status = 200, success = True, message = ''Vote recorded successfully''\<rparr>"

definition votingDisabled :: response where
  "votingDisabled = \<lparr>status = 400, success = False, message = ''Voting is currently disabled''\<rparr>"

definition invalidSession :: response where
  "invalidSession = \<lparr>status = 401, success = False,
     message = ''Invalid or expired session. Please verify again.''\<rparr>"

definition alreadyRecorded :: response where
  "alreadyRecorded = \<lparr>status = 400, success = False,
     message = ''Vote already recorded for this student''\<rparr>"

definition inProgress :: response where
  "inProgress = \<lparr>status = 400, success = False, message = ''Vote submission already in progress''\<rparr>"

definition noSelection :: response where
  "noSelection = \<lparr>status = 400, success = False, message = ''Please select at least one candidate''\<rparr>"

definition errorRecordingVote :: response where
  "errorRecordingVote = \<lparr>status = 500, success = False, message = ''Error recording vote''\<rparr>"

text \<open>
  \<open>votes.p[c] = (votes.p[c] || 0) + 1\<close>, guarded by \<open>if (c)\<close>.  The tally of a position
  is taken as a map from candidate names to counts: the names are own keys of the object
  (not \<open>__proto__\<close>, \<open>constructor\<close>, \<open>toString\<close> and the like, which JavaScript
  resolves on the prototype), and the counts stay below \<open>2^53\<close>, where adding 1 is exact.
\<close>

definition addVote :: "string \<Rightarrow> (string \<rightharpoonup> nat) \<Rightarrow> (string \<rightharpoonup> nat)" where
  "addVote c m = (if c = [] then m else m(c \<mapsto> (case m c of None \<Rightarrow> 0 | Some n \<Rightarrow> n) + 1))"

definition recordVotes :: "vote_request \<Rightarrow> votes \<Rightarrow> votes" where
  "recordVotes req v =
     \<lparr>headBoy = addVote (headBoyVote req) (headBoy v),
      headGirl = addVote (headGirlVote req) (headGirl v),
      sportsCaptain = addVote (sportsCaptainVote req) (sportsCaptain v),
      sportsViceCaptain = addVote (sportsViceCaptainVote req) (sportsViceCaptain v)\<rparr>"

definition orNull :: "string \<Rightarrow> string option" where
  "orNull s = (if s = [] then None else Some s)"

text \<open>
  The object pushed onto \<open>students\<close> (lines 611-620).  The body of the verification
  request is spread after \<open>voterKey\<close>, so a property \<open>voterKey\<close> of that body replaces the
  computed key; the properties written after the spread cannot be replaced.
\<close>

definition rollEntry :: "int \<Rightarrow> vote_request \<Rightarrow> session \<Rightarrow> student" where
  "rollEntry now req sess =
     \<lparr>s_voterKey = (case map_of (extra (voterInfo sess)) ''voterKey'' of
                       Some v \<Rightarrow> v | None \<Rightarrow> voterKey sess),
      s_voterInfo = voterInfo sess,
      votedAt = now,
      s_headBoyVote = orNull (headBoyVote req),
      s_headGirlVote = orNull (headGirlVote req),
      s_sportsCaptainVote = orNull (sportsCaptainVote req),
      s_sportsViceCaptainVote = orNull (sportsViceCaptainVote req),
      s_sessionToken = take 8 (sessionToken req)\<rparr>"

text \<open>
  The handler is an \<open>async\<close> function with five \<open>await\<close>s: it reads settings.json,
  students.json and votes.json and writes votes.json and students.json.  At each of them
  the handler is suspended and other callbacks of the server run.  A request in flight is
  therefore a value of \<open>vote_proc\<close>: either it waits for a file operation (\<open>Await...\<close>,
  with the local variables it holds), or the operation is done and its result waits for
  the handler to continue (\<open>Got...\<close>, \<open>Done...\<close>), or the response is sent.
\<close>

datatype vote_proc =
    AwaitSettings vote_request
  | GotSettings vote_request "settings option"
  | AwaitStudents vote_request session
  | GotStudents vote_request session "student list option"
  | AwaitVotes vote_request session "student list"
  | GotVotes vote_request session "student list" "votes option"
  | AwaitWriteVotes vote_request session "student list" votes
  | DoneWriteVotes vote_request session "student list" bool
  | AwaitWriteStudents vote_request session "student list" bool
  | DoneWriteStudents vote_request session bool bool
  | Responded response

text \<open>
  The file operation a request waits for is carried out: a read takes the contents of the
  file at that moment, a write replaces them when it succeeds (\<open>ok\<close>, as
  \<open>writeJsonFile\<close> reports it) and leaves the file as it is when it fails.
\<close>

fun complete :: "bool \<Rightarrow> vote_proc \<Rightarrow> server \<Rightarrow> vote_proc \<times> server" where
  "complete ok (AwaitSettings req) srv = (GotSettings req (settingsFile srv), srv)"
| "complete ok (AwaitStudents req sess) srv = (GotStudents req sess (studentsFile srv), srv)"
| "complete ok (AwaitVotes req sess students) srv = (GotVotes req sess students (votesFile srv), srv)"
| "complete ok (AwaitWriteVotes req sess students v) srv =
     (DoneWriteVotes req sess students ok, if ok then srv\<lparr>votesFile := Some v\<rparr> else srv)"
| "complete ok (AwaitWriteStudents req sess students votesSuccess) srv =
     (DoneWriteStudents req sess votesSuccess ok, if ok then srv\<lparr>studentsFile := Some students\<rparr> else srv)"
| "complete ok p srv = (p, srv)"

text \<open>
  The handler continues after an \<open>await\<close>, up to the next one or to its response.  A
  \<open>null\<close> file makes the property access throw; the outer \<open>catch\<close> answers 500, and the
  inner one (lines 636-640) first deletes the entry of \<open>votingSessions\<close>.
\<close>

fun resume :: "int \<Rightarrow> vote_proc \<Rightarrow> server \<Rightarrow> vote_proc \<times> server" where
  "resume now (GotSettings req r) srv =
     (case r of
        None \<Rightarrow> (Responded errorRecordingVote, srv)
      | Some st \<Rightarrow>
          if \<not> votingEnabled st then (Responded votingDisabled, srv)
          else if sessionToken req = [] then (Responded invalidSession, srv)
          else (case verifiedSessions srv (sessionToken req) of
                  None \<Rightarrow> (Responded invalidSession, srv)
                | Some sess \<Rightarrow> (AwaitStudents req sess, srv)))"
| "resume now (GotStudents req sess r) srv =
     (case r of
        None \<Rightarrow> (Responded errorRecordingVote, srv)
      | Some students \<Rightarrow>
          if hasVoted students (voterKey sess)
          then (Responded alreadyRecorded,
                srv\<lparr>verifiedSessions := (verifiedSessions srv)(sessionToken req := None)\<rparr>)
          else if votingSessions srv (voterKey sess) \<noteq> None then (Responded inProgress, srv)
          else if headBoyVote req = [] \<and> headGirlVote req = [] \<and> sportsCaptainVote req = []
                  \<and> sportsViceCaptainVote req = []
          then (Responded noSelection, srv)
          else (AwaitVotes req sess students,
                srv\<lparr>votingSessions := (votingSessions srv)(voterKey sess \<mapsto> now)\<rparr>))"
| "resume now (GotVotes req sess students r) srv =
     (case r of
        None \<Rightarrow> (Responded errorRecordingVote,
                 srv\<lparr>votingSessions := (votingSessions srv)(voterKey sess := None)\<rparr>)
      | Some v \<Rightarrow>
          (AwaitWriteVotes req sess (students @ [rollEntry now req sess]) (recordVotes req v), srv))"
| "resume now (DoneWriteVotes req sess students votesSuccess) srv =
     (AwaitWriteStudents req sess students votesSuccess, srv)"
| "resume now (DoneWriteStudents req sess votesSuccess studentsSuccess) srv =
     (if votesSuccess \<and> studentsSuccess
      then (Responded voteRecorded,
            srv\<lparr>verifiedSessions := (verifiedSessions srv)(sessionToken req := None),
                votingSessions := (votingSessions srv)(voterKey sess := None)\<rparr>)
      else (Responded errorRecordingVote,
            srv\<lparr>votingSessions := (votingSessions srv)(voterKey sess := None)\<rparr>))"
| "resume now p srv = (p, srv)"

text \<open>
  One request handled with nothing else running in between: each file operation is
  carried out and the handler continues at once.  \<open>votesOk\<close> and \<open>studentsOk\<close> say whether
  the two writes succeed.
\<close>

definition advance :: "bool \<Rightarrow> int \<Rightarrow> vote_proc \<times> server \<Rightarrow> vote_proc \<times> server" where
  "advance ok now ps = (case complete ok (fst ps) (snd ps) of (p, srv) \<Rightarrow> resume now p srv)"

definition vote :: "int \<Rightarrow> bool \<Rightarrow> bool \<Rightarrow> vote_request \<Rightarrow> server \<Rightarrow> vote_proc \<times> server" where
  "vote now votesOk studentsOk req srv =
     advance studentsOk now (advance votesOk now (advance True now (advance True now
       (advance True now (AwaitSettings req, srv)))))"

section \<open>Requests in flight together\<close>

text \<open>
  The server with the vote requests in flight, each under a number.  An event is the
  arrival of a request (the handler runs to its first \<open>await\<close>), the completion of the
  file operation a request waits for, or the continuation of a handler whose operation is
  done.  Node runs one callback at a time, so each event is atomic; the order of the events
  of different requests is not fixed by the code.
\<close>

record world =
  store :: server
  requests :: "nat \<rightharpoonup> vote_proc"

datatype event =
    Submit nat vote_request
  | Complete nat bool
  | Resume nat int

fun step :: "event \<Rightarrow> world \<Rightarrow> world" where
  "step (Submit p req) w = w\<lparr>requests := (requests w)(p \<mapsto> AwaitSettings req)\<rparr>"
| "step (Complete p ok) w =
     (case requests w p of
        None \<Rightarrow> w
      | Some pr \<Rightarrow> (case complete ok pr (store w) of
                     (pr', srv) \<Rightarrow> \<lparr>store = srv, requests = (requests w)(p \<mapsto> pr')\<rparr>))"
| "step (Resume p now) w =
     (case requests w p of
        None \<Rightarrow> w
      | Some pr \<Rightarrow> (case resume now pr (store w) of
                     (pr', srv) \<Rightarrow> \<lparr>store = srv, requests = (requests w)(p \<mapsto> pr')\<rparr>))"

definition run :: "event list \<Rightarrow> world \<Rightarrow> world" where
  "run evs w = fold step evs w"

section \<open>Sample data\<close>

text \<open>
  Two profiles that differ in the letter case of the class only, a third student, the
  values of the date parser on their dates of birth, a clock (2025-11-03 09:00 UTC),
  session tokens, and the data files as \<open>initializeData\<close> creates them, with voting
  switched on.
\<close>

definition jane_10a :: voter_info where
  "jane_10a = \<lparr>name = ''Jane Doe'', studentClass = ''10a'', division = ''A'',
     dateOfBirth = ''2010-05-17'', extra = []\<rparr>"

definition jane_10A :: voter_info where
  "jane_10A = \<lparr>name = ''Jane Doe'', studentClass = ''10A'', division = ''A'',
     dateOfBirth = ''2010-05-17'', extra = []\<rparr>"

definition ravi :: voter_info where
  "ravi = \<lparr>name = ''Ravi Kumar'', studentClass = ''9'', division = ''B'',
     dateOfBirth = ''2011-02-03'', extra = []\<rparr>"

definition parseSample :: "string \<Rightarrow> int option" where
  "parseSample s = (if s = ''2010-05-17'' then Some 1274054400000
                    else if s = ''2011-02-03'' then Some 1296691200000
                    else None)"

definition clock :: int where
  "clock = 1762160400000"

definition token1 :: string where
  "token1 = ''ebf11cbc64b7a2e92b6b20a5499a8e456def07dce7b72cd0f089050b624c0a43''"

definition token2 :: string where
  "token2 = ''38a4804a76ee8fd4bf55fddd2b043fc8840ca116ac19dfdf4ab782080d24db7f''"

definition emptyVotes :: votes where
  "emptyVotes = \<lparr>headBoy = Map.empty, headGirl = Map.empty, sportsCaptain = Map.empty,
     sportsViceCaptain = Map.empty\<rparr>"

definition store0 :: server where
  "store0 = \<lparr>studentsFile = Some [], votesFile = Some emptyVotes,
     settingsFile = Some \<lparr>votingEnabled = True\<rparr>,
     votingSessions = Map.empty, verifiedSessions = Map.empty, rateLimitMap = Map.empty\<rparr>"

definition keyOf :: "voter_info \<Rightarrow> string" where
  "keyOf vi = generateVoterKey (name vi) (studentClass vi) (division vi) (dateOfBirth vi)"

definition ballot :: "string \<Rightarrow> string \<Rightarrow> vote_request" where
  "ballot token candidate = \<lparr>sessionToken = token, headBoyVote = candidate, headGirlVote = [],
     sportsCaptainVote = [], sportsViceCaptainVote = []\<rparr>"

definition token3 :: string where
  "token3 = ''9f243699bbc4cf236f98e34099f852a34452d60b4ed0f9692b390605676ab91c''"

text \<open>The store after Jane has verified, and after Ravi has verified as well.\<close>

definition verified_jane :: server where
  "verified_jane = snd (check_voter parseSample clock token1 jane_10A store0)"

definition verified_both :: server where
  "verified_both = snd (check_voter parseSample (clock + 1000) token2 ravi verified_jane)"

text \<open>What an observer reads: the head-boy count of a candidate, and the keys on the roll.\<close>

definition tallyOf :: "server \<Rightarrow> string \<Rightarrow> nat option" where
  "tallyOf srv candidate = (case votesFile srv of None \<Rightarrow> None | Some v \<Rightarrow> headBoy v candidate)"

definition rollKeys :: "server \<Rightarrow> string list" where
  "rollKeys srv = (case studentsFile srv of None \<Rightarrow> [] | Some students \<Rightarrow> map s_voterKey students)"

text \<open>
  Jane's submission has read students.json and entered \<open>votingSessions\<close>; its read of
  votes.json is under way.
\<close>

definition mid_commit :: server where
  "mid_commit = store (run
     [Submit 1 (ballot token1 ''Alice''),
      Complete 1 True, Resume 1 (clock + 2000),
      Complete 1 True, Resume 1 (clock + 2001)]
     \<lparr>store = verified_jane, requests = Map.empty\<rparr>)"

text \<open>
  Two voters submit at about the same time.  Request 2 reads students.json while request
  1 is between its read of students.json and its write of it; every file operation is
  followed at once by the continuation of its handler.
\<close>

definition two_voters :: "event list" where
  "two_voters =
     [Submit 1 (ballot token1 ''Alice''),
      Complete 1 True, Resume 1 (clock + 2000),
      Complete 1 True, Resume 1 (clock + 2001),
      Submit 2 (ballot token2 ''Alice''),
      Complete 2 True, Resume 2 (clock + 2002),
      Complete 2 True, Resume 2 (clock + 2003),
      Complete 1 True, Resume 1 (clock + 2004),
      Complete 1 True, Resume 1 (clock + 2005),
      Complete 1 True, Resume 1 (clock + 2006),
      Complete 2 True, Resume 2 (clock + 2007),
      Complete 2 True, Resume 2 (clock + 2008),
      Complete 2 True, Resume 2 (clock + 2009)]"

text \<open>
  One token submitted twice.  The read of students.json of request 2 is done before
  request 1 writes the file, and the handler of request 2 continues after request 1 has
  answered.
\<close>

definition same_token_twice :: "event list" where
  "same_token_twice =
     [Submit 1 (ballot token1 ''Alice''),
      Submit 2 (ballot token1 ''Alice''),
      Complete 1 True, Resume 1 (clock + 2000),
      Complete 2 True, Resume 2 (clock + 2001),
      Complete 2 True,
      Complete 1 True, Resume 1 (clock + 2002),
      Complete 1 True, Resume 1 (clock + 2003),
      Complete 1 True, Resume 1 (clock + 2004),
      Complete 1 True, Resume 1 (clock + 2005),
      Resume 2 (clock + 2006),
      Complete 2 True, Resume 2 (clock + 2007),
      Complete 2 True, Resume 2 (clock + 2008),
      Complete 2 True, Resume 2 (clock + 2009)]"

text \<open>A verification body that carries a property \<open>voterKey\<close> of its own.\<close>

definition jane_forged :: voter_info where
  "jane_forged = jane_10A\<lparr>extra := [(''voterKey'', ''x'')]\<rparr>"

section \<open>Normalisation of strings\<close>

lemma of_char_lowerChar:
  "(of_char (lowerChar c) :: nat) = (if isUpper c then of_char c + 32 else of_char c)"
  by (auto simp: lowerChar_def isUpper_def Let_def)

lemma isUpper_lowerChar: "\<not> isUpper (lowerChar c)"
  unfolding isUpper_def [of "lowerChar c"] of_char_lowerChar Let_def
  by (auto simp: isUpper_def Let_def)

lemma lowerChar_idem: "lowerChar (lowerChar c) = lowerChar c"
  using isUpper_lowerChar [of c] by (simp add: lowerChar_def [of "lowerChar c"])

lemma isWhiteSpace_lowerChar: "isWhiteSpace (lowerChar c) = isWhiteSpace c"
  unfolding isWhiteSpace_def of_char_lowerChar
  by (auto simp: isUpper_def Let_def)

lemma toLowerCase_idem: "toLowerCase (toLowerCase s) = toLowerCase s"
  by (simp add: toLowerCase_def lowerChar_idem)

lemma toLowerCase_append: "toLowerCase (xs @ ys) = toLowerCase xs @ toLowerCase ys"
  by (simp add: toLowerCase_def)

lemma trim_toLowerCase: "trim (toLowerCase s) = toLowerCase (trim s)"
proof -
  have c: "isWhiteSpace \<circ> lowerChar = isWhiteSpace"
    by (rule ext) (simp add: isWhiteSpace_lowerChar)
  have dm: "dropWhile isWhiteSpace (map lowerChar xs) = map lowerChar (dropWhile isWhiteSpace xs)" for xs
    by (simp add: dropWhile_map c)
  show ?thesis
    by (simp add: trim_def toLowerCase_def dm rev_map)
qed

lemma dropWhile_front:
  "dropWhile P (rev (dropWhile P (rev (dropWhile P s)))) = rev (dropWhile P (rev (dropWhile P s)))"
proof (cases "dropWhile P s")
  case Nil
  show ?thesis unfolding Nil by simp
next
  case (Cons x xs)
  then have nx: "\<not> P x" by (metis hd_dropWhile list.sel(1) list.distinct(1))
  have "dropWhile P (rev (x # xs)) = dropWhile P (rev xs) @ [x]"
    using nx by (simp add: dropWhile_append3)
  then show ?thesis using Cons nx
    by (simp add: dropWhile_append3)
qed

lemma trim_idem: "trim (trim s) = trim s"
  by (simp add: trim_def dropWhile_front)

lemma trim_surround:
  assumes "list_all isWhiteSpace p" and "list_all isWhiteSpace q"
  shows "trim (p @ s @ q) = trim s"
proof -
  have p: "\<And>x. x \<in> set p \<Longrightarrow> isWhiteSpace x" and q: "\<And>x. x \<in> set (rev q) \<Longrightarrow> isWhiteSpace x"
    using assms by (auto simp: list_all_iff)
  have 1: "dropWhile isWhiteSpace (p @ s @ q) = dropWhile isWhiteSpace (s @ q)"
    using p by (rule dropWhile_append2)
  have 2: "dropWhile isWhiteSpace (rev (dropWhile isWhiteSpace (s @ q)))
         = dropWhile isWhiteSpace (rev (dropWhile isWhiteSpace s))"
  proof (cases "\<forall>x\<in>set s. isWhiteSpace x")
    case True
    then have a: "dropWhile isWhiteSpace s = []" by simp
    have b: "dropWhile isWhiteSpace (s @ q) = []"
      using True assms(2) by (auto simp: list_all_iff)
    show ?thesis by (simp only: a b)
  next
    case False
    then have "dropWhile isWhiteSpace (s @ q) = dropWhile isWhiteSpace s @ q"
      by (auto simp: dropWhile_append)
    moreover have "dropWhile isWhiteSpace (rev q @ rev (dropWhile isWhiteSpace s))
        = dropWhile isWhiteSpace (rev (dropWhile isWhiteSpace s))"
      by (rule dropWhile_append2) (rule q)
    ultimately show ?thesis by simp
  qed
  show ?thesis by (simp add: trim_def 1 2)
qed

section \<open>Voter keys\<close>

text \<open>The keys of the three sample profiles, as \<open>sha256sum\<close> gives them for the raw keys.\<close>

lemma key_jane_10a:
  "generateVoterKey ''Jane Doe'' ''10a'' ''A'' ''2010-05-17''
     = ''28df605b9d31ac742a9dc75ba5fc87958d921da73d8fd85a3a30c9a87f74bed7''"
  by code_simp

lemma key_jane_10A:
  "generateVoterKey ''Jane Doe'' ''10A'' ''A'' ''2010-05-17''
     = ''aea3faef196cf2a25100c39f105319869d2a3d6b1c3bb7ec09f358454f4f0a6d''"
  by code_simp

lemma key_ravi:
  "generateVoterKey ''Ravi Kumar'' ''9'' ''B'' ''2011-02-03''
     = ''abaeda9c95e8b244b6ac1967cf98ca290d0b46029d4ba925955dba4c2e10c53b''"
  by code_simp

lemma keys_distinct: "keyOf jane_10A \<noteq> keyOf ravi"
  by (simp add: keyOf_def jane_10A_def ravi_def key_jane_10A key_ravi)

lemma valid_jane_10a: "validateVoterInfo parseSample clock jane_10a = None"
  by code_simp

lemma valid_jane_10A: "validateVoterInfo parseSample clock jane_10A = None"
  by code_simp

text \<open>
  Claim C4 as stated fails: two valid profiles that differ only in the letter case of the
  class have different keys, because \<open>generateVoterKey\<close> lower-cases the name only.
\<close>

theorem generateVoterKey_case_sensitive:
  "jane_10A = jane_10a\<lparr>studentClass := ''10A''\<rparr>
   \<and> toLowerCase ''10A'' = toLowerCase ''10a''
   \<and> validateVoterInfo parseSample clock jane_10a = None
   \<and> validateVoterInfo parseSample clock jane_10A = None
   \<and> generateVoterKey ''Jane Doe'' ''10a'' ''A'' ''2010-05-17''
       \<noteq> generateVoterKey ''Jane Doe'' ''10A'' ''A'' ''2010-05-17''"
proof -
  have "toLowerCase ''10A'' = toLowerCase ''10a''"
    by code_simp
  then show ?thesis
    by (simp add: jane_10A_def jane_10a_def valid_jane_10a [unfolded jane_10a_def]
        valid_jane_10A [unfolded jane_10A_def] key_jane_10a key_jane_10A)
qed

text \<open>
  Claim C4, amended.  The key of a profile is the key of its normal form, where the
  normal form lower-cases and trims the name and trims class and division; and two
  profiles whose names differ only in letter case and whose name, class and division
  differ only in surrounding white space have the same key.  The letter case of class and
  division is part of the key.
\<close>

theorem generateVoterKey_normalized:
  "generateVoterKey (trim (toLowerCase nm)) (trim c) (trim d) b = generateVoterKey nm c d b
   \<and> (list_all isWhiteSpace p1 \<and> list_all isWhiteSpace q1 \<and> list_all isWhiteSpace p2
      \<and> list_all isWhiteSpace q2 \<and> list_all isWhiteSpace p3 \<and> list_all isWhiteSpace q3
      \<and> toLowerCase nm' = toLowerCase nm
      \<longrightarrow> generateVoterKey (p1 @ nm' @ q1) (p2 @ c @ q2) (p3 @ d @ q3) b = generateVoterKey nm c d b)"
proof -
  have ws: "list_all isWhiteSpace (toLowerCase p)" if "list_all isWhiteSpace p" for p
    using that by (simp add: toLowerCase_def list_all_iff isWhiteSpace_lowerChar)
  have "trim (toLowerCase (p1 @ nm' @ q1)) = trim (toLowerCase nm)"
    if "list_all isWhiteSpace p1" "list_all isWhiteSpace q1" "toLowerCase nm' = toLowerCase nm"
    using that by (simp add: toLowerCase_append trim_surround ws)
  moreover have "generateVoterKey (trim (toLowerCase nm)) (trim c) (trim d) b = generateVoterKey nm c d b"
    by (simp add: generateVoterKey_def rawKey_def trim_idem toLowerCase_idem trim_toLowerCase)
  ultimately show ?thesis
    by (simp add: generateVoterKey_def rawKey_def trim_surround)
qed

theorem generateVoterKey_normalized_witness:
  "generateVoterKey ''  JANE doe '' '' 10A'' ''A  '' ''2010-05-17''
     = generateVoterKey ''Jane Doe'' ''10A'' ''A'' ''2010-05-17''"
proof -
  have ws: "list_all isWhiteSpace ''  ''" "list_all isWhiteSpace '' ''" "list_all isWhiteSpace []"
    by code_simp+
  have lc: "toLowerCase ''JANE doe'' = toLowerCase ''Jane Doe''"
    by code_simp
  show ?thesis
    using generateVoterKey_normalized [of "''Jane Doe''" "''10A''" "''A''" "''2010-05-17''"
      "''  ''" "'' ''" "'' ''" "[]" "[]" "''  ''" "''JANE doe''"] ws lc
    by simp
qed

text \<open>The letter case of the division is part of the key in the same way.\<close>

lemma key_jane_div_a:
  "generateVoterKey ''Jane Doe'' ''10A'' ''a'' ''2010-05-17''
     = ''78e820e186ebd9071ae5caa6824c55b6f7cad1a346ac3e2fd8caa5638e8d4772''"
  by code_simp

lemma generateVoterKey_division_case_sensitive:
  "generateVoterKey ''Jane Doe'' ''10A'' ''a'' ''2010-05-17''
     \<noteq> generateVoterKey ''Jane Doe'' ''10A'' ''A'' ''2010-05-17''"
  by (simp add: key_jane_div_a key_jane_10A)

text \<open>The key of the server variant without a date of birth has the same normal form.\<close>

lemma generateVoterKey3_normalized:
  "generateVoterKey3 (trim (toLowerCase nm)) (trim c) (trim d) = generateVoterKey3 nm c d"
  by (simp add: generateVoterKey3_def trim_idem toLowerCase_idem trim_toLowerCase)

section \<open>Properties of the rate limiter\<close>

lemma rateLimit_other: "ip' \<noteq> ip \<Longrightarrow> snd (rateLimit ip now rl) ip' = rl ip'"
  by (simp add: rateLimit_def split: option.splits)

text \<open>
  Over a burst inside one window: of the requests that follow an entry with counter
  \<open>count e\<close>, the first \<open>maxRequests - count e\<close> are admitted and all later ones rejected.
\<close>

lemma rateLimit_all_Cons:
  "fst (rateLimit_all ip (t # ts) rl)
     = fst (rateLimit ip t rl) # fst (rateLimit_all ip ts (snd (rateLimit ip t rl)))"
  by (simp split: prod.splits)

lemma rateLimit_burst:
  assumes "rl ip = Some e" and "\<forall>t\<in>set ts. t \<le> resetTime e" and "count e \<le> maxRequests"
  shows "fst (rateLimit_all ip ts rl)
           = replicate (min (length ts) (maxRequests - count e)) True
             @ replicate (length ts - (maxRequests - count e)) False"
  using assms
proof (induction ts arbitrary: rl e)
  case Nil
  then show ?case by simp
next
  case (Cons t ts)
  show ?case
  proof (cases "count e < maxRequests")
    case True
    let ?e = "e\<lparr>count := count e + 1\<rparr>"
    have r: "rateLimit ip t rl = (True, rl(ip \<mapsto> ?e))"
      using Cons.prems True by (simp add: rateLimit_def)
    have "fst (rateLimit_all ip ts (rl(ip \<mapsto> ?e)))
           = replicate (min (length ts) (maxRequests - count ?e)) True
             @ replicate (length ts - (maxRequests - count ?e)) False"
      using Cons.prems True by (intro Cons.IH) auto
    moreover have "maxRequests - count e = Suc (maxRequests - count ?e)"
      using True by simp
    ultimately show ?thesis
      by (simp add: rateLimit_all_Cons r del: rateLimit_all.simps)
  next
    case False
    then have full: "count e = maxRequests" using Cons.prems by simp
    have r: "rateLimit ip t rl = (False, rl)"
      using Cons.prems full by (simp add: rateLimit_def)
    have "fst (rateLimit_all ip ts rl)
           = replicate (min (length ts) (maxRequests - count e)) True
             @ replicate (length ts - (maxRequests - count e)) False"
      using Cons.prems by (intro Cons.IH) auto
    then show ?thesis
      by (simp add: rateLimit_all_Cons r full del: rateLimit_all.simps)
  qed
qed

text \<open>
  Claim C8.  The first request of a client in a new window (no entry) or in an expired one
  (\<open>now > resetTime\<close>) sets the counter to 1, opens a window of \<open>windowMs\<close> and is
  admitted.  Inside the current window a request that finds the counter at the maximum is
  rejected and changes nothing, so it stays rejected until the window has rolled over; a
  request that finds the counter below the maximum is admitted and raises the counter by
  exactly one; no request inside the window lowers the counter or moves the end of the
  window.  Hence, of the requests of a client from the first of a window up to the end of
  that window, exactly the first \<open>maxRequests\<close> are admitted and every later one is
  rejected.
\<close>

theorem rateLimit_window:
  "(rl ip = None \<or> (\<exists>e. rl ip = Some e \<and> now > resetTime e) \<longrightarrow>
      rateLimit ip now rl = (True, rl(ip \<mapsto> \<lparr>count = 1, resetTime = now + windowMs\<rparr>)))
   \<and> (\<forall>e. rl ip = Some e \<and> now \<le> resetTime e \<and> maxRequests \<le> count e \<longrightarrow>
      rateLimit ip now rl = (False, rl))
   \<and> (\<forall>e. rl ip = Some e \<and> now \<le> resetTime e \<and> count e < maxRequests \<longrightarrow>
      rateLimit ip now rl = (True, rl(ip \<mapsto> e\<lparr>count := count e + 1\<rparr>)))
   \<and> (\<forall>e. rl ip = Some e \<and> now \<le> resetTime e \<longrightarrow>
      (\<exists>e'. snd (rateLimit ip now rl) ip = Some e' \<and> resetTime e' = resetTime e
            \<and> count e \<le> count e'
            \<and> (fst (rateLimit ip now rl) \<longleftrightarrow> count e < maxRequests)))
   \<and> ((rl ip = None \<or> (\<exists>e. rl ip = Some e \<and> now > resetTime e))
        \<and> (\<forall>t\<in>set ts. t \<le> now + windowMs) \<longrightarrow>
      fst (rateLimit_all ip (now # ts) rl)
        = replicate (min (Suc (length ts)) maxRequests) True
          @ replicate (Suc (length ts) - maxRequests) False)"
proof -
  let ?e0 = "\<lparr>count = 1, resetTime = now + windowMs\<rparr>"
  have single: "(rl ip = None \<or> (\<exists>e. rl ip = Some e \<and> now > resetTime e) \<longrightarrow>
      rateLimit ip now rl = (True, rl(ip \<mapsto> ?e0)))
   \<and> (\<forall>e. rl ip = Some e \<and> now \<le> resetTime e \<and> maxRequests \<le> count e \<longrightarrow>
      rateLimit ip now rl = (False, rl))
   \<and> (\<forall>e. rl ip = Some e \<and> now \<le> resetTime e \<and> count e < maxRequests \<longrightarrow>
      rateLimit ip now rl = (True, rl(ip \<mapsto> e\<lparr>count := count e + 1\<rparr>)))
   \<and> (\<forall>e. rl ip = Some e \<and> now \<le> resetTime e \<longrightarrow>
      (\<exists>e'. snd (rateLimit ip now rl) ip = Some e' \<and> resetTime e' = resetTime e
            \<and> count e \<le> count e'
            \<and> (fst (rateLimit ip now rl) \<longleftrightarrow> count e < maxRequests)))"
    by (auto simp: rateLimit_def split: option.splits)
  have burst: "fst (rateLimit_all ip (now # ts) rl)
        = replicate (min (Suc (length ts)) maxRequests) True
          @ replicate (Suc (length ts) - maxRequests) False"
    if new: "rl ip = None \<or> (\<exists>e. rl ip = Some e \<and> now > resetTime e)"
      and inside: "\<forall>t\<in>set ts. t \<le> now + windowMs"
  proof -
    have first: "rateLimit ip now rl = (True, rl(ip \<mapsto> ?e0))"
      using single new by blast
    have rest: "fst (rateLimit_all ip ts (rl(ip \<mapsto> ?e0)))
        = replicate (min (length ts) (maxRequests - count ?e0)) True
          @ replicate (length ts - (maxRequests - count ?e0)) False"
      using inside by (intro rateLimit_burst) (simp_all add: maxRequests_def)
    have "fst (rateLimit_all ip (now # ts) rl) = True # fst (rateLimit_all ip ts (rl(ip \<mapsto> ?e0)))"
      by (simp add: rateLimit_all_Cons first del: rateLimit_all.simps)
    also have "\<dots> = True # (replicate (min (length ts) (maxRequests - 1)) True
          @ replicate (length ts - (maxRequests - 1)) False)"
      using rest by simp
    also have "\<dots> = replicate (Suc (min (length ts) (maxRequests - 1))) True
          @ replicate (length ts - (maxRequests - 1)) False"
      by simp
    also have "Suc (min (length ts) (maxRequests - 1)) = min (Suc (length ts)) maxRequests"
      by (simp add: maxRequests_def)
    also have "length ts - (maxRequests - 1) = Suc (length ts) - maxRequests"
      by (simp add: maxRequests_def)
    finally show ?thesis .
  qed
  from single burst show ?thesis by blast
qed

theorem rateLimit_window_witness:
  "rateLimit ''10.0.0.7'' 5000 Map.empty
     = (True, [''10.0.0.7'' \<mapsto> \<lparr>count = 1, resetTime = 65000\<rparr>])
   \<and> rateLimit ''10.0.0.7'' 70000 [''10.0.0.7'' \<mapsto> \<lparr>count = 20, resetTime = 65000\<rparr>]
     = (True, [''10.0.0.7'' \<mapsto> \<lparr>count = 1, resetTime = 130000\<rparr>])
   \<and> rateLimit ''10.0.0.7'' 64000 [''10.0.0.7'' \<mapsto> \<lparr>count = 20, resetTime = 65000\<rparr>]
     = (False, [''10.0.0.7'' \<mapsto> \<lparr>count = 20, resetTime = 65000\<rparr>])
   \<and> rateLimit ''10.0.0.7'' 64000 [''10.0.0.7'' \<mapsto> \<lparr>count = 7, resetTime = 65000\<rparr>]
     = (True, [''10.0.0.7'' \<mapsto> \<lparr>count = 8, resetTime = 65000\<rparr>])
   \<and> (\<exists>e'. snd (rateLimit ''10.0.0.7'' 64000 [''10.0.0.7'' \<mapsto> \<lparr>count = 7, resetTime = 65000\<rparr>])
               ''10.0.0.7'' = Some e'
          \<and> resetTime e' = 65000 \<and> 7 \<le> count e'
          \<and> fst (rateLimit ''10.0.0.7'' 64000 [''10.0.0.7'' \<mapsto> \<lparr>count = 7, resetTime = 65000\<rparr>]))
   \<and> fst (rateLimit_all ''10.0.0.7'' (5000 # replicate 21 6000) Map.empty)
     = replicate 20 True @ replicate 2 False"
proof -
  let ?ip = "''10.0.0.7''"
  let ?full = "[?ip \<mapsto> \<lparr>count = 20, resetTime = 65000\<rparr>]"
  let ?part = "[?ip \<mapsto> \<lparr>count = 7, resetTime = 65000\<rparr>]"
  have fresh: "rateLimit ?ip 5000 Map.empty
     = (True, [?ip \<mapsto> \<lparr>count = 1, resetTime = 65000\<rparr>])"
    using rateLimit_window [of Map.empty ?ip 5000] by (simp add: windowMs_def)
  have expired: "rateLimit ?ip 70000 ?full
     = (True, [?ip \<mapsto> \<lparr>count = 1, resetTime = 130000\<rparr>])"
    using rateLimit_window [of ?full ?ip 70000] by (simp add: windowMs_def)
  have over: "rateLimit ?ip 64000 ?full = (False, ?full)"
    using rateLimit_window [of ?full ?ip 64000] by (simp add: maxRequests_def)
  have counted: "rateLimit ?ip 64000 ?part
     = (True, [?ip \<mapsto> \<lparr>count = 8, resetTime = 65000\<rparr>])"
    using rateLimit_window [of ?part ?ip 64000] by (simp add: maxRequests_def)
  have inside: "\<exists>e'. snd (rateLimit ?ip 64000 ?part) ?ip = Some e'
          \<and> resetTime e' = 65000 \<and> 7 \<le> count e' \<and> fst (rateLimit ?ip 64000 ?part)"
    using rateLimit_window [of ?part ?ip 64000] by (simp add: maxRequests_def)
  have burst: "fst (rateLimit_all ?ip (5000 # replicate 21 6000) Map.empty)
     = replicate 20 True @ replicate 2 False"
    using rateLimit_window [of Map.empty ?ip 5000 "replicate 21 6000"]
    by (simp add: windowMs_def maxRequests_def del: rateLimit_all.simps)
  from fresh expired over counted inside burst show ?thesis by simp
qed

section \<open>Facts about the sample data\<close>

lemmas response_defs = voteRecorded_def votingDisabled_def invalidSession_def alreadyRecorded_def
  inProgress_def noSelection_def errorRecordingVote_def

lemma valid_jane_later: "validateVoterInfo parseSample (clock + 1000) jane_10A = None"
  by code_simp

lemma valid_jane_mid: "validateVoterInfo parseSample (clock + 3000) jane_10A = None"
  by code_simp

lemma valid_jane_after: "validateVoterInfo parseSample (clock + 9000) jane_10A = None"
  by code_simp

lemma valid_jane_forged: "validateVoterInfo parseSample clock jane_forged = None"
  by code_simp

lemma valid_jane_forged_after: "validateVoterInfo parseSample (clock + 9000) jane_forged = None"
  by code_simp

lemma valid_ravi: "validateVoterInfo parseSample (clock + 1000) ravi = None"
  by code_simp

lemma token1_neq_token2: "token1 \<noteq> token2"
  by (simp add: token1_def token2_def)

lemma verified_jane_eq:
  "verified_jane = store0\<lparr>verifiedSessions := [token1 \<mapsto>
      \<lparr>voterKey = keyOf jane_10A, voterInfo = jane_10A, timestamp = clock, verified = True\<rparr>]\<rparr>"
  by (simp add: verified_jane_def check_voter_def valid_jane_10A store0_def hasVoted_def keyOf_def)

lemma verified_both_eq:
  "verified_both = store0\<lparr>verifiedSessions := [token1 \<mapsto>
      \<lparr>voterKey = keyOf jane_10A, voterInfo = jane_10A, timestamp = clock, verified = True\<rparr>,
     token2 \<mapsto>
      \<lparr>voterKey = keyOf ravi, voterInfo = ravi, timestamp = clock + 1000, verified = True\<rparr>]\<rparr>"
  by (simp add: verified_both_def verified_jane_eq check_voter_def valid_ravi store0_def
      hasVoted_def keyOf_def)

lemma mid_commit_eq:
  "mid_commit = verified_jane\<lparr>votingSessions := [keyOf jane_10A \<mapsto> clock + 2001]\<rparr>"
  by (simp add: mid_commit_def run_def verified_jane_eq store0_def ballot_def hasVoted_def
      token1_def)

section \<open>Properties of the verification\<close>

text \<open>A voter on the roll is told so, whatever the sessions are.\<close>

lemma check_voter_already_voted:
  assumes "validateVoterInfo parseDate now body = None"
    and "studentsFile srv = Some students" and "hasVoted students (keyOf body)"
  shows "check_voter parseDate now freshToken body srv
           = (\<lparr>status = 200, success = False, message = ''This student has already voted'',
                r_hasVoted = Some True, r_sessionToken = None\<rparr>, srv)"
  using assms by (simp add: check_voter_def keyOf_def)

text \<open>
  Claim C10.  For a valid profile whose key has an entry in \<open>votingSessions\<close> (a submission
  is being committed) and no entry on the roll, the verification answers
  \<open>success: false\<close> with \<open>hasVoted: true\<close> and changes nothing: the field \<open>hasVoted\<close> is true
  for a voter who has not voted.
\<close>

theorem check_voter_lock_reports_voted:
  assumes "validateVoterInfo parseDate now body = None"
    and "studentsFile srv = Some students" and "\<not> hasVoted students (keyOf body)"
    and "votingSessions srv (keyOf body) = Some t"
  shows "check_voter parseDate now freshToken body srv
           = (\<lparr>status = 200, success = False,
                message = ''Voting session already in progress for this student'',
                r_hasVoted = Some True, r_sessionToken = None\<rparr>, srv)"
  using assms by (simp add: check_voter_def keyOf_def)

theorem check_voter_lock_reports_voted_witness:
  "rollKeys mid_commit = []
   \<and> votingSessions mid_commit (keyOf jane_10A) = Some (clock + 2001)
   \<and> check_voter parseSample (clock + 3000) token2 jane_10A mid_commit
       = (\<lparr>status = 200, success = False,
            message = ''Voting session already in progress for this student'',
            r_hasVoted = Some True, r_sessionToken = None\<rparr>, mid_commit)"
proof -
  have roll: "studentsFile mid_commit = Some []"
    and lock: "votingSessions mid_commit (keyOf jane_10A) = Some (clock + 2001)"
    by (simp_all add: mid_commit_eq verified_jane_eq store0_def)
  have "\<not> hasVoted [] (keyOf jane_10A)"
    by (simp add: hasVoted_def)
  from check_voter_lock_reports_voted [OF valid_jane_mid roll this lock, of token2] roll lock
  show ?thesis by (simp add: rollKeys_def)
qed

text \<open>
  Claim C5 as stated fails: a second verification of a profile that holds a live session
  and has not voted succeeds and issues a second token; both sessions are live.
\<close>

theorem check_voter_second_token:
  "success (fst (check_voter parseSample (clock + 1000) token2 jane_10A verified_jane))
   \<and> map_option voterKey (verifiedSessions verified_jane token1) = Some (keyOf jane_10A)
   \<and> map_option voterKey
        (verifiedSessions (snd (check_voter parseSample (clock + 1000) token2 jane_10A verified_jane))
           token1) = Some (keyOf jane_10A)
   \<and> map_option voterKey
        (verifiedSessions (snd (check_voter parseSample (clock + 1000) token2 jane_10A verified_jane))
           token2) = Some (keyOf jane_10A)
   \<and> token1 \<noteq> token2"
  using token1_neq_token2
  by (simp add: verified_jane_eq check_voter_def valid_jane_later store0_def hasVoted_def keyOf_def)

text \<open>
  Claim C5, amended.  For a valid profile that is not on the roll, the verification fails
  (with "Voting session already in progress") exactly when the key has an entry in
  \<open>votingSessions\<close>, that is while a submission for it is being committed.  Sessions
  already held for the key do not count: without such an entry the verification succeeds,
  stores a session under the new token and leaves every session under another token in
  place.
\<close>

theorem check_voter_ignores_sessions:
  assumes "validateVoterInfo parseDate now body = None"
    and "studentsFile srv = Some students" and "\<not> hasVoted students (keyOf body)"
  shows "(votingSessions srv (keyOf body) = None \<longrightarrow>
           check_voter parseDate now freshToken body srv
             = (\<lparr>status = 200, success = True, message = ''Verification successful'',
                  r_hasVoted = Some False, r_sessionToken = Some freshToken\<rparr>,
                srv\<lparr>verifiedSessions := (verifiedSessions srv)(freshToken \<mapsto>
                  \<lparr>voterKey = keyOf body, voterInfo = body, timestamp = now, verified = True\<rparr>)\<rparr>))
       \<and> (\<not> success (fst (check_voter parseDate now freshToken body srv))
             \<longleftrightarrow> votingSessions srv (keyOf body) \<noteq> None)
       \<and> (\<forall>token s. token \<noteq> freshToken \<and> verifiedSessions srv token = Some s \<longrightarrow>
             verifiedSessions (snd (check_voter parseDate now freshToken body srv)) token = Some s)"
  using assms by (auto simp: check_voter_def keyOf_def Let_def)

theorem check_voter_ignores_sessions_witness:
  "fst (check_voter parseSample (clock + 1000) token2 jane_10A verified_jane)
     = \<lparr>status = 200, success = True, message = ''Verification successful'',
        r_hasVoted = Some False, r_sessionToken = Some token2\<rparr>
   \<and> verifiedSessions (snd (check_voter parseSample (clock + 1000) token2 jane_10A verified_jane)) token1
     = Some \<lparr>voterKey = keyOf jane_10A, voterInfo = jane_10A, timestamp = clock, verified = True\<rparr>"
proof -
  have roll: "studentsFile verified_jane = Some []"
    and lock: "votingSessions verified_jane (keyOf jane_10A) = None"
    and held: "verifiedSessions verified_jane token1
      = Some \<lparr>voterKey = keyOf jane_10A, voterInfo = jane_10A, timestamp = clock, verified = True\<rparr>"
    by (simp_all add: verified_jane_eq store0_def)
  have "\<not> hasVoted [] (keyOf jane_10A)"
    by (simp add: hasVoted_def)
  from check_voter_ignores_sessions [OF valid_jane_later roll this, of token2] lock held
    token1_neq_token2
  show ?thesis by simp
qed

section \<open>Properties of one vote submission\<close>

text \<open>A submission that is not interrupted always sends a response.\<close>

lemma vote_responds: "\<exists>r. fst (vote now votesOk studentsOk req srv) = Responded r"
  by (auto simp: vote_def advance_def split: option.splits)

text \<open>
  Claim C6 as stated fails: with voting switched off, a submission with an unknown token
  is answered "Voting is currently disabled" (400), not "Invalid or expired session" (401).
\<close>

theorem vote_unknown_token_disabled:
  "verifiedSessions (store0\<lparr>settingsFile := Some \<lparr>votingEnabled = False\<rparr>\<rparr>) token1 = None
   \<and> fst (vote clock True True (ballot token1 ''Alice'')
          (store0\<lparr>settingsFile := Some \<lparr>votingEnabled = False\<rparr>\<rparr>)) = Responded votingDisabled
   \<and> votingDisabled \<noteq> invalidSession"
  by (simp add: vote_def advance_def store0_def ballot_def response_defs)

text \<open>
  Claim C6, amended.  The handler consults the voting switch first and the token second:
  with voting switched off every submission, whatever its token, is answered
  "Voting is currently disabled" and changes nothing; with voting switched on, a
  submission with a missing or unknown token is answered "Invalid or expired session" and
  changes nothing.
\<close>

theorem vote_gate_first:
  "(settingsFile srv = Some st \<and> \<not> votingEnabled st \<longrightarrow>
      vote now votesOk studentsOk req srv = (Responded votingDisabled, srv))
   \<and> (settingsFile srv = Some st \<and> votingEnabled st
        \<and> (sessionToken req = [] \<or> verifiedSessions srv (sessionToken req) = None) \<longrightarrow>
      vote now votesOk studentsOk req srv = (Responded invalidSession, srv))"
  by (auto simp: vote_def advance_def)

theorem vote_gate_first_witness:
  "vote clock True True (ballot token1 ''Alice'') (verified_jane\<lparr>settingsFile := Some \<lparr>votingEnabled = False\<rparr>\<rparr>)
     = (Responded votingDisabled, verified_jane\<lparr>settingsFile := Some \<lparr>votingEnabled = False\<rparr>\<rparr>)
   \<and> vote clock True True (ballot token2 ''Alice'') verified_jane
     = (Responded invalidSession, verified_jane)"
proof -
  have off: "vote clock True True (ballot token1 ''Alice'')
        (verified_jane\<lparr>settingsFile := Some \<lparr>votingEnabled = False\<rparr>\<rparr>)
     = (Responded votingDisabled, verified_jane\<lparr>settingsFile := Some \<lparr>votingEnabled = False\<rparr>\<rparr>)"
    using vote_gate_first [of "verified_jane\<lparr>settingsFile := Some \<lparr>votingEnabled = False\<rparr>\<rparr>"
        "\<lparr>votingEnabled = False\<rparr>" clock True True "ballot token1 ''Alice''"]
    by simp
  have on: "vote clock True True (ballot token2 ''Alice'') verified_jane
     = (Responded invalidSession, verified_jane)"
    using vote_gate_first [of verified_jane "\<lparr>votingEnabled = True\<rparr>" clock True True
        "ballot token2 ''Alice''"] token1_neq_token2
    by (simp add: verified_jane_eq store0_def ballot_def)
  from off on show ?thesis by simp
qed

text \<open>
  The entry in \<open>votingSessions\<close> is released on every way out.  A submission reaches
  line 588 and enters its key into \<open>votingSessions\<close> exactly under the hypotheses below.  From there every way out, whether votes.json cannot
  be read, either write fails, or the commit succeeds, deletes the entry again; the
  response is a success only when votes.json was read and both writes succeeded, and
  after a failure the session is still held, so the voter can submit again.  The two
  places where a handler that holds an entry sends its response (votes.json unreadable,
  and after the second write) delete the entry whatever the rest of the server has
  become in the meantime.
\<close>

theorem vote_releases_lock:
  assumes "settingsFile srv = Some st" and "votingEnabled st"
    and "sessionToken req \<noteq> []" and "verifiedSessions srv (sessionToken req) = Some sess"
    and "studentsFile srv = Some students" and "\<not> hasVoted students (voterKey sess)"
    and "votingSessions srv (voterKey sess) = None"
    and "\<not> (headBoyVote req = [] \<and> headGirlVote req = [] \<and> sportsCaptainVote req = []
            \<and> sportsViceCaptainVote req = [])"
  shows "advance True now (advance True now (AwaitSettings req, srv))
           = (AwaitVotes req sess students,
              srv\<lparr>votingSessions := (votingSessions srv)(voterKey sess \<mapsto> now)\<rparr>)
       \<and> votingSessions (snd (vote now votesOk studentsOk req srv)) (voterKey sess) = None
       \<and> fst (vote now votesOk studentsOk req srv)
           = Responded (if votesFile srv \<noteq> None \<and> votesOk \<and> studentsOk
                        then voteRecorded else errorRecordingVote)
       \<and> (\<not> (votesFile srv \<noteq> None \<and> votesOk \<and> studentsOk) \<longrightarrow>
            verifiedSessions (snd (vote now votesOk studentsOk req srv)) (sessionToken req) = Some sess)
       \<and> votingSessions (snd (resume now' (GotVotes req sess students' None) srv')) (voterKey sess) = None
       \<and> votingSessions (snd (resume now' (DoneWriteStudents req sess votesSuccess studentsSuccess) srv'))
            (voterKey sess) = None"
  using assms by (auto simp: vote_def advance_def split: option.splits)

theorem vote_releases_lock_witness:
  "votingSessions (snd (advance True (clock + 5000) (advance True (clock + 5000)
       (AwaitSettings (ballot token1 ''Alice''), verified_jane)))) (keyOf jane_10A)
     = Some (clock + 5000)
   \<and> votingSessions (snd (vote (clock + 5000) True False (ballot token1 ''Alice'') verified_jane))
       (keyOf jane_10A) = None
   \<and> fst (vote (clock + 5000) True False (ballot token1 ''Alice'') verified_jane)
       = Responded errorRecordingVote
   \<and> verifiedSessions (snd (vote (clock + 5000) True False (ballot token1 ''Alice'') verified_jane))
       token1
       = Some \<lparr>voterKey = keyOf jane_10A, voterInfo = jane_10A, timestamp = clock, verified = True\<rparr>"
proof -
  let ?sess = "\<lparr>voterKey = keyOf jane_10A, voterInfo = jane_10A, timestamp = clock, verified = True\<rparr>"
  have h: "settingsFile verified_jane = Some \<lparr>votingEnabled = True\<rparr>"
    "votingEnabled \<lparr>votingEnabled = True\<rparr>"
    "sessionToken (ballot token1 ''Alice'') \<noteq> []"
    "verifiedSessions verified_jane (sessionToken (ballot token1 ''Alice'')) = Some ?sess"
    "studentsFile verified_jane = Some []"
    "\<not> hasVoted [] (voterKey ?sess)"
    "votingSessions verified_jane (voterKey ?sess) = None"
    "\<not> (headBoyVote (ballot token1 ''Alice'') = [] \<and> headGirlVote (ballot token1 ''Alice'') = []
        \<and> sportsCaptainVote (ballot token1 ''Alice'') = []
        \<and> sportsViceCaptainVote (ballot token1 ''Alice'') = [])"
    by (simp_all add: verified_jane_eq store0_def ballot_def hasVoted_def token1_def)
  from vote_releases_lock [OF h, of "clock + 5000" True False]
  show ?thesis by (simp add: ballot_def)
qed

text \<open>
  Claim C3 fails on the code.  The write of votes.json succeeds and the write of
  students.json fails: the response is an error, the vote is in the tally and the voter
  is not on the roll.  The voter submits again with the same token: the response is a
  success and the one voter has two votes in the tally.
\<close>

theorem partial_commit_double_counts:
  "fst (vote (clock + 5000) True False (ballot token1 ''Alice'') verified_jane)
     = Responded errorRecordingVote
   \<and> tallyOf (snd (vote (clock + 5000) True False (ballot token1 ''Alice'') verified_jane)) ''Alice''
     = Some 1
   \<and> rollKeys (snd (vote (clock + 5000) True False (ballot token1 ''Alice'') verified_jane)) = []
   \<and> fst (vote (clock + 9000) True True (ballot token1 ''Alice'')
            (snd (vote (clock + 5000) True False (ballot token1 ''Alice'') verified_jane)))
     = Responded voteRecorded
   \<and> tallyOf (snd (vote (clock + 9000) True True (ballot token1 ''Alice'')
            (snd (vote (clock + 5000) True False (ballot token1 ''Alice'') verified_jane)))) ''Alice''
     = Some 2
   \<and> rollKeys (snd (vote (clock + 9000) True True (ballot token1 ''Alice'')
            (snd (vote (clock + 5000) True False (ballot token1 ''Alice'') verified_jane))))
     = [keyOf jane_10A]"
  by (simp add: verified_jane_eq vote_def advance_def store0_def ballot_def hasVoted_def
      token1_def tallyOf_def rollKeys_def recordVotes_def addVote_def emptyVotes_def
      rollEntry_def jane_10A_def)

text \<open>
  The other order of failure: the write of votes.json fails and the write of
  students.json, which is issued all the same, succeeds.  The voter is on the roll, the
  vote is not in the tally, and a second submission is refused.
\<close>

lemma partial_commit_loses_vote:
  "fst (vote (clock + 5000) False True (ballot token1 ''Alice'') verified_jane)
     = Responded errorRecordingVote
   \<and> tallyOf (snd (vote (clock + 5000) False True (ballot token1 ''Alice'') verified_jane)) ''Alice''
     = None
   \<and> rollKeys (snd (vote (clock + 5000) False True (ballot token1 ''Alice'') verified_jane))
     = [keyOf jane_10A]
   \<and> fst (vote (clock + 9000) True True (ballot token1 ''Alice'')
            (snd (vote (clock + 5000) False True (ballot token1 ''Alice'') verified_jane)))
     = Responded alreadyRecorded"
  by (simp add: verified_jane_eq vote_def advance_def store0_def ballot_def hasVoted_def
      token1_def tallyOf_def rollKeys_def recordVotes_def addVote_def emptyVotes_def
      rollEntry_def jane_10A_def)

text \<open>
  Claim C9 fails on the code.  The entry in \<open>votingSessions\<close> is deleted on every way
  out (\<open>vote_releases_lock\<close>), but a failed commit can still leave the key blocked for
  good.  The write of votes.json fails and the write of students.json, issued all the
  same (lines 623-624), succeeds: the response is an error, the entry is deleted and the
  session kept, and no vote is counted.  The retry with the same token is answered "Vote
  already recorded" and loses its session, and every later verification is answered "This
  student has already voted".
\<close>

theorem failed_commit_blocks_retry:
  "fst (vote (clock + 5000) False True (ballot token1 ''Alice'') verified_jane)
     = Responded errorRecordingVote
   \<and> votingSessions (snd (vote (clock + 5000) False True (ballot token1 ''Alice'') verified_jane))
       (keyOf jane_10A) = None
   \<and> map_option voterKey
        (verifiedSessions (snd (vote (clock + 5000) False True (ballot token1 ''Alice'') verified_jane))
           token1) = Some (keyOf jane_10A)
   \<and> tallyOf (snd (vote (clock + 5000) False True (ballot token1 ''Alice'') verified_jane)) ''Alice''
     = None
   \<and> fst (vote (clock + 9000) True True (ballot token1 ''Alice'')
            (snd (vote (clock + 5000) False True (ballot token1 ''Alice'') verified_jane)))
     = Responded alreadyRecorded
   \<and> verifiedSessions (snd (vote (clock + 9000) True True (ballot token1 ''Alice'')
            (snd (vote (clock + 5000) False True (ballot token1 ''Alice'') verified_jane)))) token1
     = None
   \<and> tallyOf (snd (vote (clock + 9000) True True (ballot token1 ''Alice'')
            (snd (vote (clock + 5000) False True (ballot token1 ''Alice'') verified_jane)))) ''Alice''
     = None
   \<and> fst (check_voter parseSample (clock + 9000) token2 jane_10A
            (snd (vote (clock + 9000) True True (ballot token1 ''Alice'')
               (snd (vote (clock + 5000) False True (ballot token1 ''Alice'') verified_jane)))))
     = \<lparr>status = 200, success = False, message = ''This student has already voted'',
        r_hasVoted = Some True, r_sessionToken = None\<rparr>"
proof -
  let ?failed = "vote (clock + 5000) False True (ballot token1 ''Alice'') verified_jane"
  let ?retry = "vote (clock + 9000) True True (ballot token1 ''Alice'') (snd ?failed)"
  have failed: "fst ?failed = Responded errorRecordingVote
      \<and> votingSessions (snd ?failed) (keyOf jane_10A) = None
      \<and> map_option voterKey (verifiedSessions (snd ?failed) token1) = Some (keyOf jane_10A)
      \<and> tallyOf (snd ?failed) ''Alice'' = None"
    by (simp add: verified_jane_eq vote_def advance_def store0_def ballot_def hasVoted_def
        token1_def tallyOf_def emptyVotes_def rollEntry_def jane_10A_def)
  have retry: "fst ?retry = Responded alreadyRecorded
      \<and> verifiedSessions (snd ?retry) token1 = None
      \<and> tallyOf (snd ?retry) ''Alice'' = None
      \<and> rollKeys (snd ?retry) = [keyOf jane_10A]"
    by (simp add: verified_jane_eq vote_def advance_def store0_def ballot_def hasVoted_def
        token1_def tallyOf_def rollKeys_def emptyVotes_def rollEntry_def jane_10A_def)
  then obtain students where roll: "studentsFile (snd ?retry) = Some students"
      and keys: "map s_voterKey students = [keyOf jane_10A]"
    by (auto simp: rollKeys_def split: option.splits)
  have "hasVoted students (keyOf jane_10A)"
    using keys by (simp add: hasVoted_def flip: set_map)
  from check_voter_already_voted [OF valid_jane_after roll this, of token2]
  have "fst (check_voter parseSample (clock + 9000) token2 jane_10A (snd ?retry))
     = \<lparr>status = 200, success = False, message = ''This student has already voted'',
        r_hasVoted = Some True, r_sessionToken = None\<rparr>"
    by simp
  with failed retry show ?thesis by simp
qed

section \<open>Expiry of sessions\<close>

lemma next_sweep:
  fixes t0 e :: int
  assumes "t0 \<le> e"
  shows "\<exists>n::nat. e < t0 + int n * sweepInterval \<and> t0 + int n * sweepInterval \<le> e + sweepInterval"
proof -
  let ?n = "nat ((e - t0) div sweepInterval + 1)"
  have pos: "0 \<le> (e - t0) div sweepInterval"
    using assms by (simp add: sweepInterval_def pos_imp_zdiv_nonneg_iff)
  then have n: "int ?n = (e - t0) div sweepInterval + 1" by simp
  have "(e - t0) div sweepInterval * sweepInterval \<le> e - t0"
      and "e - t0 < (e - t0) div sweepInterval * sweepInterval + sweepInterval"
    by (simp_all add: sweepInterval_def)
  then have "e < t0 + int ?n * sweepInterval \<and> t0 + int ?n * sweepInterval \<le> e + sweepInterval"
    unfolding n by (simp add: algebra_simps)
  then show ?thesis by blast
qed

text \<open>
  Claim C7 as stated fails: the handler of a submission looks the token up and never
  compares the age of the session with the timeout.  A session created at \<open>clock\<close> and
  still in the map 600001 ms later (the callbacks of the timer and of the sweeper have
  not run yet) is accepted.
\<close>

theorem vote_accepts_old_session:
  "map_option timestamp (verifiedSessions verified_jane token1) = Some clock
   \<and> (clock + 600001) - clock > sessionTimeout
   \<and> fst (vote (clock + 600001) True True (ballot token1 ''Alice'') verified_jane)
       = Responded voteRecorded"
  by (simp add: verified_jane_eq vote_def advance_def store0_def ballot_def hasVoted_def
      sessionTimeout_def token1_def)

text \<open>
  Claim C7, amended.  A session is unusable once it has been removed from the map.  The
  sweeper, run at time \<open>now\<close>, keeps exactly the sessions of age at most the timeout; with
  sweeps every \<open>sweepInterval\<close> from a time \<open>t0\<close> not after the expiry, some sweep falls
  within one interval after the expiry and removes the session.  After that sweep, or
  after the callback of the session's timer, a submission with the token is answered
  "Invalid or expired session" (voting switched on).  While the session is in the map a
  submission is not answered so, whatever the age of the session.
\<close>

theorem cleanup_expires_sessions:
  "(verifiedSessions (cleanup now srv) token = Some s
      \<longleftrightarrow> verifiedSessions srv token = Some s \<and> now - timestamp s \<le> sessionTimeout)
   \<and> (verifiedSessions srv token = Some s \<and> now - timestamp s > sessionTimeout \<longrightarrow>
        verifiedSessions (cleanup now srv) token = None)
   \<and> (verifiedSessions srv token = Some s \<and> t0 \<le> timestamp s + sessionTimeout \<longrightarrow>
        (\<exists>n::nat. timestamp s + sessionTimeout < t0 + int n * sweepInterval
            \<and> t0 + int n * sweepInterval \<le> timestamp s + sessionTimeout + sweepInterval
            \<and> verifiedSessions (cleanup (t0 + int n * sweepInterval) srv) token = None))
   \<and> (settingsFile srv = Some st \<and> votingEnabled st
        \<and> verifiedSessions srv (sessionToken req) = Some s \<and> now - timestamp s > sessionTimeout \<longrightarrow>
        vote now' votesOk studentsOk req (cleanup now srv) = (Responded invalidSession, cleanup now srv)
        \<and> vote now' votesOk studentsOk req (expireSession (sessionToken req) srv)
            = (Responded invalidSession, expireSession (sessionToken req) srv))
   \<and> (settingsFile srv = Some st \<and> votingEnabled st \<and> sessionToken req \<noteq> []
        \<and> verifiedSessions srv (sessionToken req) = Some s \<longrightarrow>
        fst (vote now' votesOk studentsOk req srv) \<noteq> Responded invalidSession)"
proof -
  have a: "verifiedSessions (cleanup now srv) token = Some s
      \<longleftrightarrow> verifiedSessions srv token = Some s \<and> now - timestamp s \<le> sessionTimeout"
    by (auto simp: cleanup_def split: option.splits if_splits)
  have a': "verifiedSessions (cleanup now srv) token = None"
    if "verifiedSessions srv token = Some s" "now - timestamp s > sessionTimeout"
    using that by (simp add: cleanup_def)
  have b: "\<exists>n::nat. timestamp s + sessionTimeout < t0 + int n * sweepInterval
            \<and> t0 + int n * sweepInterval \<le> timestamp s + sessionTimeout + sweepInterval
            \<and> verifiedSessions (cleanup (t0 + int n * sweepInterval) srv) token = None"
    if "verifiedSessions srv token = Some s" "t0 \<le> timestamp s + sessionTimeout"
  proof -
    from next_sweep [OF that(2)] obtain n :: nat
      where n: "timestamp s + sessionTimeout < t0 + int n * sweepInterval"
        "t0 + int n * sweepInterval \<le> timestamp s + sessionTimeout + sweepInterval"
      by blast
    have "verifiedSessions (cleanup (t0 + int n * sweepInterval) srv) token = None"
      using that(1) n(1) by (simp add: cleanup_def)
    with n show ?thesis by blast
  qed
  have c: "vote now' votesOk studentsOk req (cleanup now srv) = (Responded invalidSession, cleanup now srv)
        \<and> vote now' votesOk studentsOk req (expireSession (sessionToken req) srv)
            = (Responded invalidSession, expireSession (sessionToken req) srv)"
    if "settingsFile srv = Some st" "votingEnabled st"
       "verifiedSessions srv (sessionToken req) = Some s" "now - timestamp s > sessionTimeout"
    using that by (simp add: vote_def advance_def cleanup_def expireSession_def)
  have d: "fst (vote now' votesOk studentsOk req srv) \<noteq> Responded invalidSession"
    if "settingsFile srv = Some st" "votingEnabled st" "sessionToken req \<noteq> []"
       "verifiedSessions srv (sessionToken req) = Some s"
    using that by (auto simp: vote_def advance_def response_defs split: option.splits)
  from a a' b c d show ?thesis by blast
qed

theorem cleanup_expires_sessions_witness:
  "verifiedSessions (cleanup (clock + 600000) verified_jane) token1
     = Some \<lparr>voterKey = keyOf jane_10A, voterInfo = jane_10A, timestamp = clock, verified = True\<rparr>
   \<and> verifiedSessions (cleanup (clock + 900000) verified_jane) token1 = None
   \<and> (\<exists>n::nat. clock + sessionTimeout < clock + 100000 + int n * sweepInterval
        \<and> clock + 100000 + int n * sweepInterval \<le> clock + sessionTimeout + sweepInterval
        \<and> verifiedSessions (cleanup (clock + 100000 + int n * sweepInterval) verified_jane) token1 = None)
   \<and> vote (clock + 900001) True True (ballot token1 ''Alice'') (cleanup (clock + 900000) verified_jane)
     = (Responded invalidSession, cleanup (clock + 900000) verified_jane)
   \<and> fst (vote (clock + 600001) True True (ballot token1 ''Alice'') verified_jane)
     \<noteq> Responded invalidSession"
proof -
  let ?s = "\<lparr>voterKey = keyOf jane_10A, voterInfo = jane_10A, timestamp = clock, verified = True\<rparr>"
  have held: "verifiedSessions verified_jane token1 = Some ?s"
    and on: "settingsFile verified_jane = Some \<lparr>votingEnabled = True\<rparr>"
    by (simp_all add: verified_jane_eq store0_def)
  have tok: "sessionToken (ballot token1 ''Alice'') = token1" "token1 \<noteq> []"
    by (simp_all add: ballot_def token1_def)
  have 1: "verifiedSessions (cleanup (clock + 600000) verified_jane) token1 = Some ?s"
    using cleanup_expires_sessions [of "clock + 600000" verified_jane token1 ?s] held
    by (simp add: sessionTimeout_def)
  have 2: "verifiedSessions (cleanup (clock + 900000) verified_jane) token1 = None"
    using cleanup_expires_sessions [of "clock + 900000" verified_jane token1 ?s] held
    by (simp add: sessionTimeout_def)
  have 3: "\<exists>n::nat. clock + sessionTimeout < clock + 100000 + int n * sweepInterval
        \<and> clock + 100000 + int n * sweepInterval \<le> clock + sessionTimeout + sweepInterval
        \<and> verifiedSessions (cleanup (clock + 100000 + int n * sweepInterval) verified_jane) token1 = None"
    using cleanup_expires_sessions [of _ verified_jane token1 ?s "clock + 100000"] held
    by (simp add: sessionTimeout_def)
  have 4: "vote (clock + 900001) True True (ballot token1 ''Alice'') (cleanup (clock + 900000) verified_jane)
     = (Responded invalidSession, cleanup (clock + 900000) verified_jane)"
    using cleanup_expires_sessions [of "clock + 900000" verified_jane _ ?s _
        "\<lparr>votingEnabled = True\<rparr>" "ballot token1 ''Alice''" "clock + 900001" True True] held on tok
    by (simp add: sessionTimeout_def)
  have 5: "fst (vote (clock + 600001) True True (ballot token1 ''Alice'') verified_jane)
     \<noteq> Responded invalidSession"
    using cleanup_expires_sessions [of _ verified_jane _ ?s _
        "\<lparr>votingEnabled = True\<rparr>" "ballot token1 ''Alice''" "clock + 600001" True True] held on tok
    by simp
  from 1 2 3 4 5 show ?thesis by blast
qed

section \<open>Submissions in flight together\<close>

text \<open>
  What one uninterrupted submission guarantees: it keeps every entry of the roll, and a
  success puts the session's key on the roll unless the verification body carried a
  \<open>voterKey\<close> of its own.
\<close>

lemma vote_keeps_roll:
  assumes "studentsFile srv = Some students" and "hasVoted students k"
  shows "\<exists>students'. studentsFile (snd (vote now votesOk studentsOk req srv)) = Some students'
           \<and> hasVoted students' k"
  using assms by (auto simp: vote_def advance_def hasVoted_def split: option.splits)

lemma vote_marks_voter:
  assumes "fst (vote now votesOk studentsOk req srv) = Responded voteRecorded"
    and "verifiedSessions srv (sessionToken req) = Some sess"
    and "map_of (extra (voterInfo sess)) ''voterKey'' = None"
  shows "\<exists>students'. studentsFile (snd (vote now votesOk studentsOk req srv)) = Some students'
           \<and> hasVoted students' (voterKey sess)"
  using assms
  by (auto simp: vote_def advance_def hasVoted_def rollEntry_def response_defs
      split: option.splits if_splits)

text \<open>
  Claim C1 fails on the code.  Jane and Ravi hold sessions and submit at about the same
  time (\<open>two_voters\<close>).  Both are answered "Vote recorded successfully" and both votes are
  in the tally, but Ravi's handler writes the roll it read before Jane's entry was
  written, extended by his own: Jane is not on the roll.  Her next verification succeeds
  and gives her a new token.
\<close>

theorem overlapping_commits_lose_roll_entry:
  "requests (run two_voters \<lparr>store = verified_both, requests = Map.empty\<rparr>) 1
     = Some (Responded voteRecorded)
   \<and> requests (run two_voters \<lparr>store = verified_both, requests = Map.empty\<rparr>) 2
     = Some (Responded voteRecorded)
   \<and> tallyOf (store (run two_voters \<lparr>store = verified_both, requests = Map.empty\<rparr>)) ''Alice''
     = Some 2
   \<and> rollKeys (store (run two_voters \<lparr>store = verified_both, requests = Map.empty\<rparr>))
     = [keyOf ravi]
   \<and> keyOf jane_10A \<noteq> keyOf ravi
   \<and> fst (check_voter parseSample (clock + 9000) token3 jane_10A
            (store (run two_voters \<lparr>store = verified_both, requests = Map.empty\<rparr>)))
     = \<lparr>status = 200, success = True, message = ''Verification successful'',
        r_hasVoted = Some False, r_sessionToken = Some token3\<rparr>"
proof -
  let ?w = "run two_voters \<lparr>store = verified_both, requests = Map.empty\<rparr>"
  have end_state: "requests ?w 1 = Some (Responded voteRecorded)
      \<and> requests ?w 2 = Some (Responded voteRecorded)
      \<and> tallyOf (store ?w) ''Alice'' = Some 2
      \<and> rollKeys (store ?w) = [keyOf ravi]
      \<and> votingSessions (store ?w) (keyOf jane_10A) = None"
    using keys_distinct
    by (simp add: verified_both_eq run_def two_voters_def store0_def ballot_def hasVoted_def
        token1_def token2_def tallyOf_def rollKeys_def recordVotes_def addVote_def emptyVotes_def
        rollEntry_def jane_10A_def ravi_def)
  then obtain students where roll: "studentsFile (store ?w) = Some students"
      and keys: "map s_voterKey students = [keyOf ravi]"
    by (auto simp: rollKeys_def split: option.splits)
  have "\<not> hasVoted students (keyOf jane_10A)"
    using keys keys_distinct by (simp add: hasVoted_def flip: set_map)
  then have "fst (check_voter parseSample (clock + 9000) token3 jane_10A (store ?w))
     = \<lparr>status = 200, success = True, message = ''Verification successful'',
        r_hasVoted = Some False, r_sessionToken = Some token3\<rparr>"
    using roll end_state
    by (simp add: check_voter_def valid_jane_after keyOf_def Let_def)
  with end_state keys_distinct show ?thesis by simp
qed

text \<open>
  The same loss without any overlap: the roll entry is built by spreading the
  verification body after the computed \<open>voterKey\<close>, so a body with a \<open>voterKey\<close> of its
  own is entered under that value, and its voter is verified again after a successful
  vote.
\<close>

lemma forged_verified_eq:
  "snd (check_voter parseSample clock token1 jane_forged store0)
     = store0\<lparr>verifiedSessions := [token1 \<mapsto>
         \<lparr>voterKey = keyOf jane_10A, voterInfo = jane_forged, timestamp = clock, verified = True\<rparr>]\<rparr>"
proof -
  have "keyOf jane_forged = keyOf jane_10A"
    by (simp add: keyOf_def jane_forged_def)
  then show ?thesis
    by (simp add: check_voter_def valid_jane_forged store0_def hasVoted_def keyOf_def)
qed

lemma spread_replaces_voterKey:
  "fst (vote (clock + 5000) True True (ballot token1 ''Alice'')
          (snd (check_voter parseSample clock token1 jane_forged store0)))
     = Responded voteRecorded
   \<and> rollKeys (snd (vote (clock + 5000) True True (ballot token1 ''Alice'')
          (snd (check_voter parseSample clock token1 jane_forged store0)))) = [''x'']
   \<and> success (fst (check_voter parseSample (clock + 9000) token2 jane_forged
          (snd (vote (clock + 5000) True True (ballot token1 ''Alice'')
             (snd (check_voter parseSample clock token1 jane_forged store0))))))"
proof -
  let ?s = "snd (vote (clock + 5000) True True (ballot token1 ''Alice'')
          (snd (check_voter parseSample clock token1 jane_forged store0)))"
  have x: "map_of (extra jane_forged) ''voterKey'' = Some ''x''"
    by (simp add: jane_forged_def)
  have voted: "fst (vote (clock + 5000) True True (ballot token1 ''Alice'')
          (snd (check_voter parseSample clock token1 jane_forged store0)))
       = Responded voteRecorded
     \<and> map_option (map s_voterKey) (studentsFile ?s) = Some [''x'']
     \<and> votingSessions ?s (keyOf jane_10A) = None"
    unfolding forged_verified_eq
    by (simp add: vote_def advance_def store0_def ballot_def hasVoted_def
        token1_def rollEntry_def x)
  then obtain students where roll: "studentsFile ?s = Some students"
      and keys: "map s_voterKey students = [''x'']"
    by auto
  have "keyOf jane_10A \<noteq> ''x''"
    by (simp add: keyOf_def jane_10A_def key_jane_10A)
  then have "\<not> hasVoted students (keyOf jane_10A)"
    using keys by (simp add: hasVoted_def flip: set_map)
  moreover have "keyOf jane_forged = keyOf jane_10A"
    by (simp add: keyOf_def jane_forged_def)
  ultimately have "success (fst (check_voter parseSample (clock + 9000) token2 jane_forged ?s))"
    using roll voted
    by (simp add: check_voter_def valid_jane_forged_after Let_def flip: keyOf_def)
  with voted roll keys show ?thesis by (simp add: rollKeys_def)
qed

text \<open>
  A handler that continues while another submission of the same key holds its entry in
  \<open>votingSessions\<close> answers at once and changes nothing.
\<close>

lemma resume_in_progress:
  assumes "\<not> hasVoted students (voterKey sess)" and "votingSessions srv (voterKey sess) = Some t"
  shows "resume now (GotStudents req sess (Some students)) srv = (Responded inProgress, srv)"
  using assms by simp

text \<open>
  Claim C2 fails on the code.  The check of the roll and the entry into \<open>votingSessions\<close>
  use the contents of students.json as read before the \<open>await\<close>.  In \<open>same_token_twice\<close>
  the second request has that read done before the first request writes the roll, and
  continues after the first request has answered and deleted its entry: both requests
  are answered "Vote recorded successfully" and the candidate has two votes from one
  voter.
\<close>

theorem same_token_counted_twice:
  "requests (run same_token_twice \<lparr>store = verified_jane, requests = Map.empty\<rparr>) 1
     = Some (Responded voteRecorded)
   \<and> requests (run same_token_twice \<lparr>store = verified_jane, requests = Map.empty\<rparr>) 2
     = Some (Responded voteRecorded)
   \<and> tallyOf (store (run same_token_twice \<lparr>store = verified_jane, requests = Map.empty\<rparr>)) ''Alice''
     = Some 2
   \<and> rollKeys (store (run same_token_twice \<lparr>store = verified_jane, requests = Map.empty\<rparr>))
     = [keyOf jane_10A]"
  by (simp add: verified_jane_eq run_def same_token_twice_def store0_def ballot_def hasVoted_def
      token1_def tallyOf_def rollKeys_def recordVotes_def addVote_def emptyVotes_def
      rollEntry_def jane_10A_def)

end
